theory Spec2Isabelle
  imports Complex_Main
begin

section \<open>Strings, bytes and characters\<close>

text \<open>
  A Python \<open>str\<close> is a sequence of Unicode code points and is modelled as a list of
  natural numbers; \<open>bytes\<close> is a list of numbers below 256. \<open>str\<close> turns a literal
  of the theory into such a sequence. Python's whitespace test (the one behind
  \<open>\s\<close> in a \<open>str\<close> pattern and behind \<open>str.strip()\<close>) is reproduced for all
  code points. The Unicode tables behind \<open>\d\<close>, \<open>\w\<close> and \<open>str.lower()\<close> are
  reproduced for the ASCII range only.
\<close>

type_synonym pystr = "nat list"
type_synonym bytes = "nat list"

definition str :: "string \<Rightarrow> pystr" where
  "str s = map of_char s"

definition is_space :: "nat \<Rightarrow> bool" where
  "is_space c \<longleftrightarrow> (9 \<le> c \<and> c \<le> 13) \<or> (28 \<le> c \<and> c \<le> 32) \<or> c = 133 \<or> c = 160
     \<or> c = 5760 \<or> (8192 \<le> c \<and> c \<le> 8202) \<or> c = 8232 \<or> c = 8233 \<or> c = 8239
     \<or> c = 8287 \<or> c = 12288"

definition is_upper :: "nat \<Rightarrow> bool" where
  "is_upper c \<longleftrightarrow> 65 \<le> c \<and> c \<le> 90"

definition is_lower :: "nat \<Rightarrow> bool" where
  "is_lower c \<longleftrightarrow> 97 \<le> c \<and> c \<le> 122"

definition is_digit :: "nat \<Rightarrow> bool" where
  "is_digit c \<longleftrightarrow> 48 \<le> c \<and> c \<le> 57"

definition is_word :: "nat \<Rightarrow> bool" where
  "is_word c \<longleftrightarrow> is_upper c \<or> is_lower c \<or> is_digit c \<or> c = 95"



text \<open>
  \<open>str.strip()\<close>, \<open>str.replace(old, "")\<close> for a one-character \<open>old\<close>,
  \<open>str.endswith\<close>, the substring test \<open>a in b\<close> and \<open>str.splitlines()\<close>
  (for the line ends \<open>\n\<close>, \<open>\r\<close> and \<open>\r\n\<close>).
\<close>

definition strip :: "pystr \<Rightarrow> pystr" where
  "strip s = rev (dropWhile is_space (rev (dropWhile is_space s)))"





section \<open>Regular expressions as Python's \<open>re\<close> module matches them\<close>

text \<open>
  The patterns of \<open>main.py\<close> are written in a small abstract syntax and matched by a
  backtracking matcher that returns every way a pattern matches at the current position,
  the preferred way first, as \<open>re\<close> tries them: the left alternative before the right
  one, a greedy repetition longest first, a lazy one shortest first. A matcher state
  holds the character before the position (for \<open>\b\<close>), the rest of the input and the
  groups captured so far.
\<close>

datatype mstate = MState (prev: "nat option") (rest: pystr) (groups: "(nat \<times> pystr) list")

datatype regex =
    Chr "nat \<Rightarrow> bool"
  | Eps
  | Seq regex regex
  | Alt regex regex
  | Star regex
  | LazyStar regex
  | Group nat regex
  | WordBoundary

function star_iter :: "(mstate \<Rightarrow> mstate list) \<Rightarrow> mstate \<Rightarrow> mstate list"
  and star_list :: "(mstate \<Rightarrow> mstate list) \<Rightarrow> nat \<Rightarrow> mstate list \<Rightarrow> mstate list" where
  "star_iter f st = star_list f (length (rest st)) (f st) @ [st]"
| "star_list f n [] = []"
| "star_list f n (st' # sts) =
     (if length (rest st') < n then star_iter f st' else []) @ star_list f n sts"
  by pat_completeness auto
termination
  by (relation "inv_image (less_than <*lex*> less_than)
        (\<lambda>x. case x of Inl (f, st) \<Rightarrow> (2 * length (rest st) + 1, 0)
                        | Inr (f, n, sts) \<Rightarrow> (2 * n, length sts))") auto

function lazy_iter :: "(mstate \<Rightarrow> mstate list) \<Rightarrow> mstate \<Rightarrow> mstate list"
  and lazy_list :: "(mstate \<Rightarrow> mstate list) \<Rightarrow> nat \<Rightarrow> mstate list \<Rightarrow> mstate list" where
  "lazy_iter f st = st # lazy_list f (length (rest st)) (f st)"
| "lazy_list f n [] = []"
| "lazy_list f n (st' # sts) =
     (if length (rest st') < n then lazy_iter f st' else []) @ lazy_list f n sts"
  by pat_completeness auto
termination
  by (relation "inv_image (less_than <*lex*> less_than)
        (\<lambda>x. case x of Inl (f, st) \<Rightarrow> (2 * length (rest st) + 1, 0)
                        | Inr (f, n, sts) \<Rightarrow> (2 * n, length sts))") auto

definition consumed :: "pystr \<Rightarrow> mstate \<Rightarrow> pystr" where
  "consumed s m = take (length s - length (rest m)) s"

definition set_group :: "nat \<Rightarrow> mstate \<Rightarrow> mstate \<Rightarrow> mstate" where
  "set_group n st m = MState (prev m) (rest m) ((n, consumed (rest st) m) # groups m)"

definition word_before :: "mstate \<Rightarrow> bool" where
  "word_before st = (case prev st of None \<Rightarrow> False | Some c \<Rightarrow> is_word c)"

definition word_after :: "mstate \<Rightarrow> bool" where
  "word_after st = (case rest st of [] \<Rightarrow> False | c # cs \<Rightarrow> is_word c)"

primrec matches :: "regex \<Rightarrow> mstate \<Rightarrow> mstate list" where
  "matches (Chr P) st =
     (case rest st of [] \<Rightarrow> []
      | c # cs \<Rightarrow> if P c then [MState (Some c) cs (groups st)] else [])"
| "matches Eps st = [st]"
| "matches (Seq a b) st = concat (map (matches b) (matches a st))"
| "matches (Alt a b) st = matches a st @ matches b st"
| "matches (Star r) st = star_iter (matches r) st"
| "matches (LazyStar r) st = lazy_iter (matches r) st"
| "matches (Group n r) st = map (set_group n st) (matches r st)"
| "matches WordBoundary st = (if word_before st \<noteq> word_after st then [st] else [])"

text \<open>
  A match object: the text of the whole match (\<open>group(0)\<close>), the captured groups and
  the input after the match.
\<close>

datatype rmatch = RMatch (m_text: pystr) (m_groups: "(nat \<times> pystr) list") (m_rest: pystr)

definition mk_match :: "pystr \<Rightarrow> mstate \<Rightarrow> rmatch" where
  "mk_match s m = RMatch (consumed s m) (groups m) (rest m)"

definition group :: "rmatch \<Rightarrow> nat \<Rightarrow> pystr" where
  "group m n = (if n = 0 then m_text m else (case map_of (m_groups m) n of None \<Rightarrow> [] | Some g \<Rightarrow> g))"

text \<open>\<open>re.search\<close>: the first position, from the left, at which the pattern matches.\<close>

fun search_from :: "regex \<Rightarrow> nat option \<Rightarrow> pystr \<Rightarrow> rmatch option" where
  "search_from r pv [] =
     (case matches r (MState pv [] []) of [] \<Rightarrow> None | m # ms \<Rightarrow> Some (mk_match [] m))"
| "search_from r pv (c # cs) =
     (case matches r (MState pv (c # cs) []) of
        [] \<Rightarrow> search_from r (Some c) cs
      | m # ms \<Rightarrow> Some (mk_match (c # cs) m))"

definition re_search :: "regex \<Rightarrow> pystr \<Rightarrow> rmatch option" where
  "re_search r s = search_from r None s"

text \<open>
  \<open>re.sub\<close> with a function as replacement and \<open>re.findall\<close>: the matches are taken
  from the left and do not overlap; after a match the scan goes on where the match ended
  (after an empty match, one character further).
\<close>

function sub_from :: "regex \<Rightarrow> (rmatch \<Rightarrow> pystr) \<Rightarrow> nat option \<Rightarrow> pystr \<Rightarrow> pystr" where
  "sub_from r repl pv [] =
     (case matches r (MState pv [] []) of [] \<Rightarrow> [] | m # ms \<Rightarrow> repl (mk_match [] m))"
| "sub_from r repl pv (c # cs) =
     (case matches r (MState pv (c # cs) []) of
        [] \<Rightarrow> c # sub_from r repl (Some c) cs
      | m # ms \<Rightarrow>
          if length (rest m) < length (c # cs)
          then repl (mk_match (c # cs) m) @ sub_from r repl (prev m) (rest m)
          else repl (mk_match (c # cs) m) @ c # sub_from r repl (Some c) cs)"
  by pat_completeness auto
termination
  by (relation "measure (\<lambda>(r, repl, pv, s). length s)") auto

definition re_sub :: "regex \<Rightarrow> (rmatch \<Rightarrow> pystr) \<Rightarrow> pystr \<Rightarrow> pystr" where
  "re_sub r repl s = sub_from r repl None s"



subsection \<open>Building patterns\<close>

text \<open>
  A literal character; under \<open>re.IGNORECASE\<close> a letter of the pattern matches the
  characters whose lower case it is and the two characters \<open>re\<close> adds as equivalents
  of an ASCII letter (dotless i for \<open>i\<close>, long s for \<open>s\<close>). The only characters
  outside ASCII whose lower case is an ASCII letter are U+0130 (\<open>i\<close>) and the Kelvin
  sign U+212A (\<open>k\<close>).
\<close>

definition re_lower :: "nat \<Rightarrow> nat" where
  "re_lower c = (if is_upper c then c + 32 else if c = 304 then 105 else if c = 8490 then 107 else c)"

definition lit :: "char \<Rightarrow> regex" where
  "lit c = Chr (\<lambda>x. x = of_char c)"

definition icase_eq :: "nat \<Rightarrow> nat \<Rightarrow> bool" where
  "icase_eq c x \<longleftrightarrow> re_lower x = re_lower c
     \<or> (re_lower c = 105 \<and> x = 305) \<or> (re_lower c = 115 \<and> x = 383)"

definition ilit :: "char \<Rightarrow> regex" where
  "ilit c = Chr (icase_eq (of_char c))"

fun lits :: "string \<Rightarrow> regex" where
  "lits [] = Eps"
| "lits [c] = lit c"
| "lits (c # cs) = Seq (lit c) (lits cs)"

fun ilits :: "string \<Rightarrow> regex" where
  "ilits [] = Eps"
| "ilits [c] = ilit c"
| "ilits (c # cs) = Seq (ilit c) (ilits cs)"

definition Plus :: "regex \<Rightarrow> regex" where
  "Plus r = Seq r (Star r)"

definition Opt :: "regex \<Rightarrow> regex" where
  "Opt r = Alt r Eps"

fun seqs :: "regex list \<Rightarrow> regex" where
  "seqs [] = Eps"
| "seqs [r] = r"
| "seqs (r # rs) = Seq r (seqs rs)"



definition ws :: regex where
  "ws = Chr is_space"


section \<open>Decoding the page\<close>

text \<open>
  \<^verbatim>\<open>def normalize_ws(s): return re.sub(r"\s+", " ", (s or "")).strip()\<close>
\<close>

definition normalize_ws :: "pystr \<Rightarrow> pystr" where
  "normalize_ws s = strip (re_sub (Plus ws) (\<lambda>m. str '' '') s)"












section \<open>Numbers\<close>

text \<open>
  A Python \<open>float\<close> is an IEEE 754 binary64 value: a finite value is modelled by the
  real number it denotes (the sign of a zero is not kept: no result of the program
  depends on it), besides the two infinities and NaN. Every operealion computes the exact
  result and rounds it to the nearest representable value, ties to even
  (\<open>round_to_double\<close>); a result too large for the format is an infinity.
\<close>

datatype pyfloat = Fin real | PosInf | NegInf | NaN




















text \<open>
  The value an answer can take: \<open>answer\<close> is an \<open>int\<close> or a \<open>float\<close> (the other
  types of the annotation \<open>Union[str, int, float, bool, dict, None]\<close> are never
  assigned). The program reports a float whose fractional part is below \<open>1e-9\<close> as an
  integer:

  \<^verbatim>\<open>int(s) if abs(s - int(s)) < 1e-9 else s\<close>

  \<open>None\<close> stands for the exception of \<open>int(s)\<close>.
\<close>

datatype answer = AInt int | AFloat pyfloat


section \<open>The PDF column sum\<close>

text \<open>
  \<open>pdfplumber\<close> is a library outside the repository. Its interface, as the program uses
  it: \<open>pdfplumber.open\<close> gives the pages of a document; \<open>page.extract_tables()\<close> gives
  the tables of a page, each a list of rows, each row a list of cells, a cell a string or
  \<open>None\<close>; \<open>page.extract_text()\<close> gives the text of the page. \<open>None\<close> as the result of
  one of these calls stands for an exception of the library (Python's \<open>None\<close> as a result
  of \<open>extract_tables\<close> or \<open>extract_text\<close> is the empty list or the empty string, as
  \<open>or []\<close> and \<open>or ""\<close> make it). The module itself is \<open>None\<close> when its import failed.
\<close>

type_synonym cell = "pystr option"
type_synonym table = "cell list list"

datatype pdf_page = PdfPage (extract_tables: "table list option") (extract_text: "pystr option")

type_synonym pdflib = "(bytes \<Rightarrow> pdf_page list option) option"















section \<open>Values exchanged with the outside\<close>

text \<open>
  A parsed JSON document, which is also the dynamically typed value a URL variable of the
  program can hold: \<open>JNull\<close> is Python's \<open>None\<close>, an object is a \<open>dict\<close>, written as
  the list of its items (the keys are distinct). \<open>truthy\<close> is Python's truth test.
\<close>

datatype json =
    JNull
  | JBool bool
  | JInt int
  | JFloat pyfloat
  | JStr pystr
  | JArr "json list"
  | JObj "(pystr \<times> json) list"

fun truthy :: "json \<Rightarrow> bool" where
  "truthy JNull = False"
| "truthy (JBool b) = b"
| "truthy (JInt n) = (n \<noteq> 0)"
| "truthy (JFloat x) = (x \<noteq> Fin 0)"
| "truthy (JStr s) = (s \<noteq> [])"
| "truthy (JArr xs) = (xs \<noteq> [])"
| "truthy (JObj kvs) = (kvs \<noteq> [])"

definition dict_get :: "(pystr \<times> json) list \<Rightarrow> pystr \<Rightarrow> json" where
  "dict_get kvs k = (case map_of kvs k of None \<Rightarrow> JNull | Some v \<Rightarrow> v)"

text \<open>
  The exceptions that leave \<open>solve_quiz_chain\<close>: the two the program raises itself, with
  their messages, and \<open>OtherError\<close> for an exception of a library call or of the
  interpreter that the program does not catch, with its text.
\<close>

datatype exn = TimeoutError string | RuntimeError string | OtherError string

text \<open>
  A table as \<open>pandas\<close> parsed it: the columns in order, each with its label and its
  cells as \<open>pd.to_numeric(..., errors="coerce")\<close> converts them (a cell that is not a
  number is NaN). A label is a string or, as in a spreadsheet with numbers in its header
  row, another value. The labels of a table are distinct.
\<close>

datatype label = LStr pystr | LOther

type_synonym dataframe = "(label \<times> pyfloat list) list"

text \<open>
  The libraries outside the repository: \<open>json.loads\<close> (\<open>None\<close> for an exception),
  \<open>pdfplumber\<close>, and the three readers of \<open>pandas\<close> (\<open>pd.read_csv\<close>,
  \<open>pd.json_normalize\<close> of the decoded and parsed file, \<open>pd.read_excel\<close>), each
  giving a table or raising.
\<close>

record libs =
  json_loads :: "pystr \<Rightarrow> json option"
  pdfplumber :: pdflib
  read_csv :: "bytes \<Rightarrow> string + dataframe"
  read_json :: "bytes \<Rightarrow> string + dataframe"
  read_excel :: "bytes \<Rightarrow> string + dataframe"

text \<open>The body of a submission and what the server's response holds.\<close>

record payload =
  p_email :: pystr
  p_secret :: pystr
  p_url :: json
  p_answer :: answer

text \<open>
  \<open>client.post\<close> raises an \<open>httpx.HTTPError\<close>, raises something else, or gives a
  response with a status code; \<open>raise_for_status\<close> of the response raises an
  \<open>httpx.HTTPError\<close> (with the given text) or returns; \<open>resp.json()\<close> gives the parsed
  body or raises.
\<close>

datatype post_result =
    PostHTTPError string
  | PostOtherError string
  | Response (status_code: int) (raise_for_status: "string option") (json_body: "string + json")

text \<open>
  What the outside answers during one iteration of the loop: the clock, the browser, the
  download and the submission.
\<close>

record step_env =
  now :: real
  fetch_rendered_html :: "json \<Rightarrow> string + pystr"
  http_get_bytes :: "pystr \<Rightarrow> string + bytes"
  client_post :: "json \<Rightarrow> payload \<Rightarrow> post_result"

text \<open>The calls the program makes to the outside, in order.\<close>

datatype event = Fetch json | Get pystr | Post json payload | Close

section \<open>Instructions of the page\<close>

text \<open>
  \<^verbatim>\<open>SUBMIT_URL_RE = re.compile(r"(?:submit\s+to|POST\s+to)\s+(https?://[^\s\"'<>]+)", re.IGNORECASE)\<close>
\<close>

definition url_chr :: regex where
  "url_chr = Chr (\<lambda>x. \<not> is_space x \<and> x \<noteq> 34 \<and> x \<noteq> 39 \<and> x \<noteq> 60 \<and> x \<noteq> 62)"

definition http_url :: "regex \<Rightarrow> regex" where
  "http_url suffix = seqs [ilits ''http'', Opt (ilit CHR ''s''), ilits ''://'', Plus url_chr, suffix]"

definition SUBMIT_URL_RE :: regex where
  "SUBMIT_URL_RE =
     seqs [Alt (seqs [ilits ''submit'', Plus ws, ilits ''to''])
               (seqs [ilits ''POST'', Plus ws, ilits ''to'']),
           Plus ws, Group 1 (http_url Eps)]"

definition extract_submit_url :: "pystr \<Rightarrow> pystr option" where
  "extract_submit_url text = map_option (\<lambda>m. group m 1) (re_search SUBMIT_URL_RE text)"

text \<open>
  \<^verbatim>\<open>JSON_BLOCK_RE = re.compile(r"(?s)<pre>\s*({.*?})\s*</pre>")\<close>
\<close>

definition JSON_BLOCK_RE :: regex where
  "JSON_BLOCK_RE =
     seqs [lits ''<pre>'', Star ws,
           Group 1 (seqs [lit CHR ''{'', LazyStar (Chr (\<lambda>x. True)), lit CHR ''}'']),
           Star ws, lits ''</pre>'']"

definition find_embedded_json_payload :: "libs \<Rightarrow> pystr \<Rightarrow> json option" where
  "find_embedded_json_payload L text =
     (case re_search JSON_BLOCK_RE text of
        None \<Rightarrow> None
      | Some m \<Rightarrow> json_loads L (group m 1))"

text \<open>
  \<^verbatim>\<open>submit_url = extract_submit_url(text)
if not submit_url:
    payload_hint = find_embedded_json_payload(expanded) or {}
    submit_url = payload_hint.get("submit")
if not submit_url:
    raise RuntimeError("Submit URL not found on the quiz page.")\<close>

  \<open>.get\<close> exists on a \<open>dict\<close> only: a parsed value of another type that is not falsy
  raises \<open>AttributeError\<close>.
\<close>

definition payload_submit :: "libs \<Rightarrow> pystr \<Rightarrow> exn + json" where
  "payload_submit L expanded =
     (case find_embedded_json_payload L expanded of
        None \<Rightarrow> Inr JNull
      | Some v \<Rightarrow>
          if \<not> truthy v then Inr JNull
          else (case v of
                  JObj kvs \<Rightarrow> Inr (dict_get kvs (str ''submit''))
                | _ \<Rightarrow> Inl (OtherError ''AttributeError'')))"

definition resolve_submit_url :: "libs \<Rightarrow> pystr \<Rightarrow> pystr \<Rightarrow> exn + json" where
  "resolve_submit_url L text expanded =
     (case extract_submit_url text of
        Some u \<Rightarrow> Inr (JStr u)
      | None \<Rightarrow>
          (case payload_submit L expanded of
             Inl e \<Rightarrow> Inl e
           | Inr submit_url \<Rightarrow>
               if \<not> truthy submit_url
               then Inl (RuntimeError ''Submit URL not found on the quiz page.'')
               else Inr submit_url))"

section \<open>Auxiliary functions of the proofs\<close>

text \<open>
  What \<open>re.sub(r"\s+", " ", s)\<close> computes, written as a recursion on the string, and
  the strings it returns: every whitespace character is a single space and no two of
  them are adjacent.
\<close>

function collapse :: "pystr \<Rightarrow> pystr" where
  "collapse [] = []"
| "collapse (c # cs) =
     (if is_space c then 32 # collapse (dropWhile is_space cs) else c # collapse cs)"
  by pat_completeness auto
termination
  by (relation "measure length") (auto simp: less_Suc_eq_le length_dropWhile_le)

fun nice :: "pystr \<Rightarrow> bool" where
  "nice [] = True"
| "nice [c] = (is_space c \<longrightarrow> c = 32)"
| "nice (a # b # cs) = ((is_space a \<longrightarrow> a = 32 \<and> \<not> is_space b) \<and> nice (b # cs))"

section \<open>Evaluation of the model on concrete inputs\<close>






section \<open>Facts about the matcher\<close>

lemma star_chr_nonempty: "star_iter f st \<noteq> []"
  by simp

lemma star_chr_hd:
  "\<exists>pv'. hd (star_iter (matches (Chr P)) (MState pv s g)) = MState pv' (dropWhile P s) g"
proof -
  define f where "f = matches (Chr P)"
  have f_nil: "\<And>pv. f (MState pv [] g) = []" by (simp add: f_def)
  have f_hit: "\<And>pv c cs. P c \<Longrightarrow> f (MState pv (c # cs) g) = [MState (Some c) cs g]"
    by (simp add: f_def)
  have f_miss: "\<And>pv c cs. \<not> P c \<Longrightarrow> f (MState pv (c # cs) g) = []"
    by (simp add: f_def)
  have "\<exists>pv'. hd (star_iter f (MState pv s g)) = MState pv' (dropWhile P s) g"
  proof (induction s arbitrary: pv)
    case Nil
    show ?case by (simp add: f_nil)
  next
    case (Cons c cs)
    show ?case
    proof (cases "P c")
      case True
      have ne: "star_iter f (MState (Some c) cs g) \<noteq> []"
        by (rule star_chr_nonempty)
      have "star_iter f (MState pv (c # cs) g)
          = star_iter f (MState (Some c) cs g) @ [MState pv (c # cs) g]"
        by (subst star_iter.simps) (simp add: f_hit[OF True] del: star_iter.simps)
      then have "hd (star_iter f (MState pv (c # cs) g)) = hd (star_iter f (MState (Some c) cs g))"
        using ne by (simp del: star_iter.simps)
      then show ?thesis using True Cons.IH[of "Some c"] by (simp del: star_iter.simps)
    next
      case False
      then show ?thesis by (simp add: f_miss)
    qed
  qed
  then show ?thesis by (simp only: f_def)
qed

lemma plus_chr_empty: "matches (Plus (Chr P)) (MState pv [] g) = []"
  by (simp add: Plus_def)

lemma plus_chr_miss: "\<not> P c \<Longrightarrow> matches (Plus (Chr P)) (MState pv (c # cs) g) = []"
  by (simp add: Plus_def)

lemma plus_chr_hit:
  assumes "P c"
  obtains pv' ms where
    "matches (Plus (Chr P)) (MState pv (c # cs) g) = MState pv' (dropWhile P cs) g # ms"
proof -
  let ?L = "star_iter (matches (Chr P)) (MState (Some c) cs g)"
  have eq: "matches (Plus (Chr P)) (MState pv (c # cs) g) = ?L"
    using assms by (simp add: Plus_def del: star_iter.simps)
  have ne: "?L \<noteq> []" by (rule star_chr_nonempty)
  then obtain m ms where L: "?L = m # ms" by (cases ?L) auto
  obtain pv' where "hd ?L = MState pv' (dropWhile P cs) g"
    using star_chr_hd[of P "Some c" cs g] by blast
  with L have "m = MState pv' (dropWhile P cs) g" by simp
  with eq L that show thesis by simp
qed

lemma sub_ws_collapse: "sub_from (Plus (Chr is_space)) (\<lambda>m. [32]) pv s = collapse s"
proof (induction s arbitrary: pv rule: collapse.induct)
  case 1
  show ?case by (simp add: plus_chr_empty)
next
  case (2 c cs)
  show ?case
  proof (cases "is_space c")
    case True
    obtain pv' ms where
      M0: "matches (Plus (Chr is_space)) (MState pv (c # cs) [])
             = MState pv' (dropWhile is_space cs) [] # ms"
      using plus_chr_hit[of is_space c pv cs "[]", OF True] by blast
    define m where "m = MState pv' (dropWhile is_space cs) []"
    have M: "matches (Plus (Chr is_space)) (MState pv (c # cs) []) = m # ms"
      and R: "rest m = dropWhile is_space cs"
      using M0 by (simp_all add: m_def)
    have len: "length (rest m) < length (c # cs)"
      using R length_dropWhile_le[of is_space cs] by simp
    show ?thesis using True M R len "2.IH"(1)[OF True, of "prev m"] by simp
  next
    case False
    show ?thesis using False "2.IH"(2)[OF False, of "Some c"] by (simp add: plus_chr_miss)
  qed
qed

lemma collapse_Nil_iff: "collapse t = [] \<longleftrightarrow> t = []"
  by (cases t) auto

lemma collapse_hd_space: "t \<noteq> [] \<Longrightarrow> is_space (hd (collapse t)) = is_space (hd t)"
  by (cases t) (auto simp: is_space_def)

lemma nice_Cons32: "nice t \<Longrightarrow> (t \<noteq> [] \<Longrightarrow> \<not> is_space (hd t)) \<Longrightarrow> nice (32 # t)"
  by (cases t) auto

lemma nice_ConsNS: "nice t \<Longrightarrow> \<not> is_space c \<Longrightarrow> nice (c # t)"
  by (cases t) auto

lemma nice_collapse: "nice (collapse s)"
proof (induction s rule: collapse.induct)
  case 1
  show ?case by simp
next
  case (2 c cs)
  show ?case
  proof (cases "is_space c")
    case True
    let ?d = "dropWhile is_space cs"
    have "collapse ?d \<noteq> [] \<Longrightarrow> \<not> is_space (hd (collapse ?d))"
    proof -
      assume "collapse ?d \<noteq> []"
      then have ne: "?d \<noteq> []" by (simp add: collapse_Nil_iff)
      then have "\<not> is_space (hd ?d)" by (rule hd_dropWhile)
      with ne show ?thesis by (simp add: collapse_hd_space)
    qed
    with "2.IH"(1)[OF True] True show ?thesis by (simp add: nice_Cons32)
  next
    case False
    with "2.IH"(2)[OF False] show ?thesis by (simp add: nice_ConsNS)
  qed
qed

lemma collapse_nice: "nice t \<Longrightarrow> collapse t = t"
  by (induction t rule: nice.induct) auto

lemma nice_append_left: "nice (xs @ ys) \<Longrightarrow> nice xs"
proof (induction xs rule: nice.induct)
  case 1
  show ?case by simp
next
  case (2 c)
  then show ?case by (cases ys) auto
next
  case (3 a b cs)
  then show ?case by auto
qed

lemma nice_append_right: "nice (xs @ ys) \<Longrightarrow> nice ys"
proof (induction xs rule: nice.induct)
  case 1
  then show ?case by simp
next
  case (2 c)
  then show ?case by (cases ys) auto
next
  case (3 a b cs)
  then show ?case by auto
qed

lemma nice_strip: assumes "nice u" shows "nice (strip u)"
proof -
  let ?d = "dropWhile is_space u"
  have "takeWhile is_space u @ ?d = u" by simp
  with assms have d: "nice ?d" using nice_append_right by metis
  have "rev (dropWhile is_space (rev ?d)) @ rev (takeWhile is_space (rev ?d)) = ?d"
    by (metis rev_append rev_rev_ident takeWhile_dropWhile_id)
  with d have "nice (rev (dropWhile is_space (rev ?d)))" using nice_append_left by metis
  then show ?thesis by (simp add: strip_def)
qed

lemma strip_ends:
  "strip x = [] \<or> (\<not> is_space (hd (strip x)) \<and> \<not> is_space (last (strip x)))"
proof (cases "strip x = []")
  case True
  then show ?thesis by simp
next
  case False
  let ?d = "dropWhile is_space x"
  let ?e = "dropWhile is_space (rev ?d)"
  have y: "strip x = rev ?e" by (simp add: strip_def)
  with False have ene: "?e \<noteq> []" by simp
  then have h: "\<not> is_space (hd ?e)" by (rule hd_dropWhile)
  have dne: "?d \<noteq> []"
  proof
    assume a: "?d = []"
    have "?e = dropWhile is_space (rev [])" by (simp only: a)
    then have "?e = []" by (simp only: rev.simps dropWhile.simps)
    with ene show False by blast
  qed
  have "last ?e = last (rev ?d)" using ene
    by (metis last_appendR takeWhile_dropWhile_id)
  also have "\<dots> = hd ?d" using dne by (simp add: last_rev)
  finally have l: "\<not> is_space (last ?e)" using hd_dropWhile[OF dne] by simp
  show ?thesis using y ene h l by (simp add: hd_rev last_rev)
qed

lemma strip_fixed:
  assumes "y = [] \<or> (\<not> is_space (hd y) \<and> \<not> is_space (last y))"
  shows "strip y = y"
proof (cases "y = []")
  case True
  then show ?thesis by (simp add: strip_def)
next
  case False
  with assms have h: "\<not> is_space (hd y)" and l: "\<not> is_space (last y)" by auto
  have 1: "dropWhile is_space y = y" using False h by (cases y) auto
  have hl: "hd (rev y) = last y" using False by (simp add: hd_rev)
  obtain a as where ra: "rev y = a # as" using False by (cases "rev y") auto
  have "a = last y" using hl by (simp only: ra list.sel)
  then have "dropWhile is_space (a # as) = a # as" using l by simp
  then have 2: "dropWhile is_space (rev y) = rev y" by (simp only: ra)
  show ?thesis by (simp add: strip_def 1 2)
qed

lemma strip_idem: "strip (strip x) = strip x"
  by (rule strip_fixed) (rule strip_ends)

lemma normalize_ws_collapse: "normalize_ws s = strip (collapse s)"
  by (simp add: normalize_ws_def re_sub_def ws_def str_def sub_ws_collapse)


section \<open>Facts about the pattern of the obfuscated payloads\<close>





lemma matches_all_append:
  "concat (map f (xs @ ys)) = concat (map f xs) @ concat (map f ys)"
  by simp










section \<open>Revealing the obfuscated payloads\<close>




section \<open>Decoding twice\<close>




section \<open>Whitespace normalisation\<close>

text \<open>
  C7: whitespace normalisation is idempotent: for every string \<open>s\<close>,
  \<open>normalize_ws(normalize_ws(s)) == normalize_ws(s)\<close>.
\<close>

theorem normalize_ws_idempotent: "normalize_ws (normalize_ws s) = normalize_ws s"
proof -
  have "nice (strip (collapse s))" by (rule nice_strip) (rule nice_collapse)
  then have "collapse (strip (collapse s)) = strip (collapse s)" by (rule collapse_nice)
  then show ?thesis by (simp add: normalize_ws_collapse strip_idem)
qed

section \<open>The PDF column sum: integer or float\<close>




end
